theory Spec2Isabelle
  imports Complex_Main "HOL-Library.Char_ord" "HOL-Library.List_Lexorder" "HOL-Library.Option_ord"
    "HOL-Library.Product_Lexorder"
begin

section \<open>Expense tracker: ledger, queries and analytics\<close>

text \<open>
  The services of the expense tracker (\<^verbatim>\<open>services/expenses_service.py\<close>,
  \<^verbatim>\<open>services/analytics_service.py\<close>, \<^verbatim>\<open>utils/dates.py\<close>) run SQL statements against one
  SQLite table \<^verbatim>\<open>expenses\<close> and shape the rows in Python. The table is modelled as the list of
  its rows in rowid order, every SQL statement as the list function it denotes, and every Python
  function as a HOL function over that list.

  Conventions of the model:
  \<^item> text is a \<open>string\<close>; texts are compared as SQLite's BINARY collation and Python compare
    them, position by position (the lexicographic order of \<open>HOL-Library.List_Lexorder\<close>);
  \<^item> the columns declared \<^verbatim>\<open>NOT NULL\<close> (date, amount, category) hold a value, every other
    column holds an \<open>option\<close>, \<open>None\<close> being SQL's NULL and Python's \<^verbatim>\<open>None\<close>;
  \<^item> an amount (\<^verbatim>\<open>REAL\<close> in SQLite, \<^verbatim>\<open>float\<close> in Python) is a finite double, written as the real
    number it denotes, so that comparisons are those of the reals. Arithmetic on doubles
    rounds: the sum, average, difference, quotient and product that the code computes, and
    Python's \<^verbatim>\<open>round(x, 2)\<close>, are not computed in the model but taken from a record of
    operations, \<open>float_ops\<close>, that every function receives. Nothing is assumed of these
    operations, so what is proved holds however doubles round;
  \<^item> Python's integers are unbounded; an integer handed to SQLite as a parameter must fit a
    signed 64-bit integer, and binding any other raises \<^verbatim>\<open>OverflowError\<close>;
  \<^item> where SQL leaves the order of rows open (ties of an \<^verbatim>\<open>ORDER BY\<close>, a \<^verbatim>\<open>GROUP BY\<close> without
    \<^verbatim>\<open>ORDER BY\<close>), the model keeps rowid order among ties and lists groups by ascending key;
  \<^item> SQLite's built-in \<^verbatim>\<open>strftime\<close> and \<^verbatim>\<open>LIKE\<close>, Python's \<^verbatim>\<open>int()\<close> on a string and Python's clock
    are parameters of the functions that use them.
\<close>

subsection \<open>Python values\<close>

datatype py_error = KeyError | ValueError | ZeroDivisionError | TypeError | OverflowError

text \<open>\<^verbatim>\<open>bool(s)\<close> of an optional string, as in \<^verbatim>\<open>if category:\<close>: false for \<^verbatim>\<open>None\<close> and for \<^verbatim>\<open>""\<close>.\<close>

fun py_truthy :: "string option \<Rightarrow> bool" where
  "py_truthy None = False"
| "py_truthy (Some s) = (s \<noteq> [])"

text \<open>\<^verbatim>\<open>x or 0\<close> for an optional number: \<^verbatim>\<open>None\<close> and \<^verbatim>\<open>0.0\<close> both give 0.\<close>

fun py_or0 :: "real option \<Rightarrow> real" where
  "py_or0 None = 0"
| "py_or0 (Some v) = (if v = 0 then 0 else v)"

text \<open>\<^verbatim>\<open>s or ""\<close> for an optional string.\<close>

fun py_or_empty :: "string option \<Rightarrow> string" where
  "py_or_empty None = []"
| "py_or_empty (Some s) = (if s = [] then [] else s)"

text \<open>
  \<^verbatim>\<open>str.lower()\<close> on the letters \<^verbatim>\<open>A\<close> to \<^verbatim>\<open>Z\<close>; every other character is kept. (Python also
  lowers letters outside ASCII; none of them lowers to one of the letters of the word the
  classifier looks for, directly followed by the next of them.)
\<close>

definition lower_char :: "char \<Rightarrow> char" where
  "lower_char c =
     (case map_of (zip ''ABCDEFGHIJKLMNOPQRSTUVWXYZ'' ''abcdefghijklmnopqrstuvwxyz'') c of
        None \<Rightarrow> c
      | Some l \<Rightarrow> l)"

definition lower :: "string \<Rightarrow> string" where
  "lower s = map lower_char s"

text \<open>\<^verbatim>\<open>s.startswith(p)\<close> and \<^verbatim>\<open>needle in hay\<close> for strings.\<close>

fun startswith :: "string \<Rightarrow> string \<Rightarrow> bool" where
  "startswith s [] = True"
| "startswith [] (p # ps) = False"
| "startswith (c # cs) (p # ps) = (c = p \<and> startswith cs ps)"

fun str_contains :: "string \<Rightarrow> string \<Rightarrow> bool" where
  "str_contains needle [] = (needle = [])"
| "str_contains needle (c # cs) = (startswith (c # cs) needle \<or> str_contains needle cs)"

text \<open>Decimal rendering of integers: \<^verbatim>\<open>str(n)\<close>, and the format \<^verbatim>\<open>{n:0wd}\<close> (sign-aware zero padding).\<close>

definition digit_char :: "nat \<Rightarrow> char" where
  "digit_char d = ''0123456789'' ! d"

fun digits :: "nat \<Rightarrow> string" where
  "digits n = (if n < 10 then [digit_char n] else digits (n div 10) @ [digit_char (n mod 10)])"

declare digits.simps [simp del]

definition py_str :: "int \<Rightarrow> string" where
  "py_str n = (if n < 0 then CHR ''-'' # digits (nat (- n)) else digits (nat n))"

definition py_format_0d :: "nat \<Rightarrow> int \<Rightarrow> string" where
  "py_format_0d w n =
     (if n < 0
      then CHR ''-'' # replicate (w - 1 - length (digits (nat (- n)))) CHR ''0'' @ digits (nat (- n))
      else replicate (w - length (digits (nat n))) CHR ''0'' @ digits (nat n))"

text \<open>
  The arithmetic of doubles that the code uses. \<open>fl_sum\<close> and \<open>fl_avg\<close> are SQLite's \<^verbatim>\<open>SUM\<close> and
  \<^verbatim>\<open>AVG\<close> of the values of a group that has rows, in the order the rows are listed;
  \<open>fl_add\<close>, \<open>fl_sub\<close>, \<open>fl_mul\<close> and \<open>fl_div\<close> are Python's \<^verbatim>\<open>+\<close>, \<^verbatim>\<open>-\<close>, \<^verbatim>\<open>*\<close> and \<^verbatim>\<open>/\<close> on floats
  (an \<^verbatim>\<open>int\<close> operand is converted first); \<open>fl_pysum\<close> is Python's \<^verbatim>\<open>sum()\<close> of a list of floats
  that is not empty; \<open>fl_round2\<close> is Python's \<^verbatim>\<open>round(x, 2)\<close> of a float that is not zero.
\<close>

record float_ops =
  fl_sum :: "real list \<Rightarrow> real"
  fl_avg :: "real list \<Rightarrow> real"
  fl_add :: "real \<Rightarrow> real \<Rightarrow> real"
  fl_sub :: "real \<Rightarrow> real \<Rightarrow> real"
  fl_mul :: "real \<Rightarrow> real \<Rightarrow> real"
  fl_div :: "real \<Rightarrow> real \<Rightarrow> real"
  fl_pysum :: "real list \<Rightarrow> real"
  fl_round2 :: "real \<Rightarrow> real"

text \<open>\<^verbatim>\<open>round(x, 2)\<close>: zero, the \<^verbatim>\<open>int\<close> as well as the \<^verbatim>\<open>float\<close>, rounds to zero.\<close>

definition py_round2 :: "float_ops \<Rightarrow> real \<Rightarrow> real" where
  "py_round2 fl x = (if x = 0 then 0 else fl_round2 fl x)"

text \<open>\<^verbatim>\<open>sum(xs)\<close>: the \<^verbatim>\<open>int\<close> 0 for no element.\<close>

definition py_sum :: "float_ops \<Rightarrow> real list \<Rightarrow> real" where
  "py_sum fl xs = (if xs = [] then 0 else fl_pysum fl xs)"

text \<open>\<^verbatim>\<open>a / b\<close> on numbers: \<^verbatim>\<open>ZeroDivisionError\<close> when the divisor is zero.\<close>

definition py_truediv :: "float_ops \<Rightarrow> real \<Rightarrow> real \<Rightarrow> py_error + real" where
  "py_truediv fl a b = (if b = 0 then Inl ZeroDivisionError else Inr (fl_div fl a b))"

text \<open>
  An integer bound to a \<^verbatim>\<open>?\<close> of a statement: \<^verbatim>\<open>OverflowError\<close> unless it fits SQLite's signed
  64-bit integer.
\<close>

definition in_int64 :: "int \<Rightarrow> bool" where
  "in_int64 n = (- (2 ^ 63) \<le> n \<and> n < 2 ^ 63)"

definition bind_int :: "int \<Rightarrow> py_error + int" where
  "bind_int n = (if in_int64 n then Inr n else Inl OverflowError)"

subsection \<open>The table\<close>

record expense =
  expense_id :: int
  date :: string
  amount :: real
  category :: string
  subcategory :: "string option"
  expense_note :: "string option"
  tax_deductible :: "int option"
  currency :: "string option"
  payment_method :: "string option"

type_synonym ledger = "expense list"

text \<open>\<^verbatim>\<open>date BETWEEN ? AND ?\<close>\<close>

definition between :: "string \<Rightarrow> string \<Rightarrow> string \<Rightarrow> bool" where
  "between d lo hi = (lo \<le> d \<and> d \<le> hi)"

text \<open>The optional clause \<^verbatim>\<open>AND category = ?\<close>, appended \<^verbatim>\<open>if category:\<close>.\<close>

definition category_clause :: "string option \<Rightarrow> expense \<Rightarrow> bool" where
  "category_clause c r = (if py_truthy c then category r = the c else True)"

text \<open>
  SQL aggregates over the amounts of a group: NULL on no rows. \<^verbatim>\<open>MIN\<close> and \<^verbatim>\<open>MAX\<close> return one of
  the values; \<^verbatim>\<open>SUM\<close> and \<^verbatim>\<open>AVG\<close> are computed in doubles.
\<close>

definition sql_sum :: "float_ops \<Rightarrow> real list \<Rightarrow> real option" where
  "sql_sum fl xs = (if xs = [] then None else Some (fl_sum fl xs))"

definition sql_avg :: "float_ops \<Rightarrow> real list \<Rightarrow> real option" where
  "sql_avg fl xs = (if xs = [] then None else Some (fl_avg fl xs))"

fun sql_min :: "real list \<Rightarrow> real option" where
  "sql_min [] = None"
| "sql_min (x # xs) = Some (fold min xs x)"

fun sql_max :: "real list \<Rightarrow> real option" where
  "sql_max [] = None"
| "sql_max (x # xs) = Some (fold max xs x)"

text \<open>The keys of \<^verbatim>\<open>GROUP BY k ORDER BY k ASC\<close>, and the rows of one group.\<close>

definition group_keys :: "('r \<Rightarrow> 'k::linorder) \<Rightarrow> 'r list \<Rightarrow> 'k list" where
  "group_keys k rows = sort (remdups (map k rows))"

definition group_rows :: "('r \<Rightarrow> 'k) \<Rightarrow> 'k \<Rightarrow> 'r list \<Rightarrow> 'r list" where
  "group_rows k v rows = filter (\<lambda>r. k r = v) rows"

subsection \<open>tax\_summary\<close>

text \<open>
  The dictionaries \<^verbatim>\<open>tax_categories\<close> and \<^verbatim>\<open>totals\<close> are association lists in insertion order
  (the order \<^verbatim>\<open>.items()\<close> walks). \<^verbatim>\<open>d[k]\<close> on a missing key raises \<^verbatim>\<open>KeyError\<close>.
\<close>

definition tax_bucket_labels :: "string list" where
  "tax_bucket_labels =
     [''Werbungskosten (Work-related)'', ''Gesundheitskosten (Health)'',
      ''Versicherungen (Insurance)'', ''Spenden (Donations)'', ''Sonstige (Other)'']"

fun dict_modify :: "string \<Rightarrow> ('v \<Rightarrow> 'v) \<Rightarrow> (string \<times> 'v) list \<Rightarrow> py_error + (string \<times> 'v) list" where
  "dict_modify k f [] = Inl KeyError"
| "dict_modify k f ((k', v) # kvs) =
     (if k = k' then Inr ((k', f v) # kvs)
      else (case dict_modify k f kvs of Inl e \<Rightarrow> Inl e | Inr kvs' \<Rightarrow> Inr ((k', v) # kvs')))"

text \<open>The \<^verbatim>\<open>if\<close>/\<^verbatim>\<open>elif\<close> chain of the loop body, on the row's category and subcategory.\<close>

definition tax_bucket :: "string \<Rightarrow> string option \<Rightarrow> string" where
  "tax_bucket cat sub =
     (if cat \<in> set [''business'', ''education'', ''subscriptions''] then ''Werbungskosten (Work-related)''
      else if cat = ''health'' then ''Gesundheitskosten (Health)''
      else if str_contains ''insurance'' (lower (py_or_empty sub)) then ''Versicherungen (Insurance)''
      else if cat = ''gifts_donations'' then ''Spenden (Donations)''
      else ''Sonstige (Other)'')"

definition bucket_of :: "expense \<Rightarrow> string" where
  "bucket_of e = tax_bucket (category e) (subcategory e)"

type_synonym tax_state = "(string \<times> expense list) list \<times> (string \<times> real) list"

definition tax_init :: tax_state where
  "tax_init = (map (\<lambda>k. (k, [])) tax_bucket_labels, map (\<lambda>k. (k, 0)) tax_bucket_labels)"

text \<open>
  One turn of the loop: \<^verbatim>\<open>amount = float(exp["amount"] or 0)\<close>, the row appended to the list of
  its bucket and \<^verbatim>\<open>totals[bucket] += amount\<close>.
\<close>

definition tax_step :: "float_ops \<Rightarrow> expense \<Rightarrow> tax_state \<Rightarrow> py_error + tax_state" where
  "tax_step fl ex st =
     (let bucket = bucket_of ex;
          amt = py_or0 (Some (amount ex))
      in case dict_modify bucket (\<lambda>l. l @ [ex]) (fst st) of
           Inl e \<Rightarrow> Inl e
         | Inr tc \<Rightarrow>
             (case dict_modify bucket (\<lambda>t. fl_add fl t amt) (snd st) of
                Inl e \<Rightarrow> Inl e
              | Inr tot \<Rightarrow> Inr (tc, tot)))"

fun tax_loop :: "float_ops \<Rightarrow> expense list \<Rightarrow> tax_state \<Rightarrow> py_error + tax_state" where
  "tax_loop fl [] st = Inr st"
| "tax_loop fl (ex # exs) st =
     (case tax_step fl ex st of Inl e \<Rightarrow> Inl e | Inr st' \<Rightarrow> tax_loop fl exs st')"

record tax_entry =
  tax_category :: string
  te_total :: real
  te_count :: nat
  te_expenses :: "expense list"

record tax_result =
  tr_year :: int
  tr_filter_category :: "string option"
  tr_grand_total :: real
  tr_total_count :: nat
  tr_summary :: "tax_entry list"

text \<open>
  The rows selected by the query of \<^verbatim>\<open>tax_summary\<close>: in the year's range, flagged
  deductible, of the category when one is given, \<^verbatim>\<open>ORDER BY date ASC\<close>.
\<close>

definition tax_expenses :: "ledger \<Rightarrow> int \<Rightarrow> string option \<Rightarrow> expense list" where
  "tax_expenses db year cat =
     sort_key date
       (filter (\<lambda>r. between (date r) (py_str year @ ''-01-01'') (py_str year @ ''-12-31'')
                     \<and> tax_deductible r = Some 1 \<and> category_clause cat r) db)"

definition tax_summary :: "float_ops \<Rightarrow> ledger \<Rightarrow> int \<Rightarrow> string option \<Rightarrow> py_error + tax_result" where
  "tax_summary fl db year cat =
     (let exps = tax_expenses db year cat
      in case tax_loop fl exps tax_init of
           Inl e \<Rightarrow> Inl e
         | Inr (tc, tot) \<Rightarrow>
             Inr \<lparr> tr_year = year, tr_filter_category = cat,
                   tr_grand_total = py_round2 fl (py_sum fl (map snd tot)),
                   tr_total_count = length exps,
                   tr_summary =
                     map (\<lambda>(k, es). \<lparr> tax_category = k,
                                       te_total = py_round2 fl (the (map_of tot k)),
                                       te_count = length es, te_expenses = es \<rparr>)
                       (filter (\<lambda>(k, es). es \<noteq> []) tc) \<rparr>)"

subsection \<open>expenses\_service: edit, delete, search\<close>






text \<open>The integers among the parameters of a statement are bound one after the other.\<close>

fun bind_optional :: "int option \<Rightarrow> py_error + int option" where
  "bind_optional None = Inr None"
| "bind_optional (Some v) = (case bind_int v of Inl e \<Rightarrow> Inl e | Inr b \<Rightarrow> Inr (Some b))"



text \<open>
  The \<^verbatim>\<open>WHERE\<close> clause that \<^verbatim>\<open>search_expenses\<close> builds: a conjunct for every string argument that
  is truthy and for every numeric argument that is not \<^verbatim>\<open>None\<close>. A comparison with a NULL column
  is not true, so the row is left out. \<open>like text pattern\<close> is SQLite's \<^verbatim>\<open>text LIKE pattern\<close>.
\<close>

definition search_where ::
  "(string \<Rightarrow> string \<Rightarrow> bool) \<Rightarrow> string option \<Rightarrow> string option \<Rightarrow> string option \<Rightarrow>
   real option \<Rightarrow> real option \<Rightarrow> string option \<Rightarrow> int option \<Rightarrow> expense \<Rightarrow> bool" where
  "search_where like start_date end_date cat min_amount max_amount note_contains td r =
     ((if py_truthy start_date then the start_date \<le> date r else True) \<and>
      (if py_truthy end_date then date r \<le> the end_date else True) \<and>
      (if py_truthy cat then category r = the cat else True) \<and>
      (case min_amount of None \<Rightarrow> True | Some m \<Rightarrow> m \<le> amount r) \<and>
      (case max_amount of None \<Rightarrow> True | Some m \<Rightarrow> amount r \<le> m) \<and>
      (if py_truthy note_contains
       then (case expense_note r of
               None \<Rightarrow> False
             | Some n \<Rightarrow> like n (''%'' @ the note_contains @ ''%''))
       else True) \<and>
      (case td of None \<Rightarrow> True | Some t \<Rightarrow> tax_deductible r = Some t))"

text \<open>\<^verbatim>\<open>ORDER BY date DESC, id DESC\<close>\<close>

definition order_newest_first :: "expense list \<Rightarrow> expense list" where
  "order_newest_first rows = rev (sort_key (\<lambda>r. (date r, expense_id r)) rows)"

text \<open>
  \<^verbatim>\<open>LIMIT ? OFFSET ?\<close> as SQLite evaluates it on two 64-bit integers: a negative limit is no
  limit, a negative offset is offset 0.
\<close>

definition limit_offset :: "int \<Rightarrow> int \<Rightarrow> 'a list \<Rightarrow> 'a list" where
  "limit_offset lmt ofs rows =
     (let rest = drop (nat ofs) rows in if lmt < 0 then rest else take (nat lmt) rest)"

record search_result =
  results :: "expense list"
  total_count :: nat
  sr_limit :: int
  sr_offset :: int

text \<open>
  The first statement binds \<^verbatim>\<open>tax_deductible\<close> (when given), \<^verbatim>\<open>limit\<close> and \<^verbatim>\<open>offset\<close>, in this
  order; the counting statement binds the same filters again.
\<close>

definition search_expenses ::
  "(string \<Rightarrow> string \<Rightarrow> bool) \<Rightarrow> ledger \<Rightarrow> string option \<Rightarrow> string option \<Rightarrow> string option \<Rightarrow>
   real option \<Rightarrow> real option \<Rightarrow> string option \<Rightarrow> int option \<Rightarrow> int \<Rightarrow> int \<Rightarrow>
   py_error + search_result" where
  "search_expenses like db start_date end_date cat min_amount max_amount note_contains td lmt ofs =
     (case bind_optional td of
        Inl e \<Rightarrow> Inl e
      | Inr td' \<Rightarrow>
          (case bind_int lmt of
             Inl e \<Rightarrow> Inl e
           | Inr lmt' \<Rightarrow>
               (case bind_int ofs of
                  Inl e \<Rightarrow> Inl e
                | Inr ofs' \<Rightarrow>
                    (let wh = search_where like start_date end_date cat min_amount max_amount
                                note_contains td'
                     in Inr \<lparr> results = limit_offset lmt' ofs' (order_newest_first (filter wh db)),
                               total_count = length (filter wh db),
                               sr_limit = lmt, sr_offset = ofs \<rparr>))))"

subsection \<open>utils/dates\<close>

text \<open>\<^verbatim>\<open>s.split(sep)\<close> for a one-character separator.\<close>

fun split_on :: "char \<Rightarrow> string \<Rightarrow> string list" where
  "split_on sep [] = [[]]"
| "split_on sep (c # cs) =
     (if c = sep then [] # split_on sep cs
      else (case split_on sep cs of [] \<Rightarrow> [[c]] | w # ws \<Rightarrow> (c # w) # ws))"

text \<open>
  \<^verbatim>\<open>calendar.monthrange(year, month)[1]\<close>: the number of days of the month;
  \<^verbatim>\<open>IllegalMonthError\<close>, a \<^verbatim>\<open>ValueError\<close>, for a month outside 1 to 12.
\<close>

definition isleap :: "int \<Rightarrow> bool" where
  "isleap year = (year mod 4 = 0 \<and> (year mod 100 \<noteq> 0 \<or> year mod 400 = 0))"

definition monthrange_days :: "int \<Rightarrow> int \<Rightarrow> py_error + int" where
  "monthrange_days year month =
     (if \<not> (1 \<le> month \<and> month \<le> 12) then Inl ValueError
      else Inr ([0, 31, 28, 31, 30, 31, 30, 31, 31, 30, 31, 30, 31] ! nat month
                + (if month = 2 \<and> isleap year then 1 else 0)))"

text \<open>
  \<^verbatim>\<open>year, month = map(int, month_ym.split("-"))\<close> converts the parts one by one, up to the
  third, and raises \<^verbatim>\<open>ValueError\<close> unless there are exactly two; a part that \<^verbatim>\<open>int\<close> does not
  read raises first. \<open>int_of\<close> is Python's \<^verbatim>\<open>int()\<close> on a string.
\<close>

definition month_start_end :: "(string \<Rightarrow> py_error + int) \<Rightarrow> string \<Rightarrow> py_error + string \<times> string" where
  "month_start_end int_of month_ym =
     (case split_on CHR ''-'' month_ym of
        [y, m] \<Rightarrow>
          (case int_of y of
             Inl e \<Rightarrow> Inl e
           | Inr year \<Rightarrow>
               (case int_of m of
                  Inl e \<Rightarrow> Inl e
                | Inr month \<Rightarrow>
                    (case monthrange_days year month of
                       Inl e \<Rightarrow> Inl e
                     | Inr last_day \<Rightarrow>
                         Inr (py_format_0d 4 year @ ''-'' @ py_format_0d 2 month @ ''-01'',
                              py_format_0d 4 year @ ''-'' @ py_format_0d 2 month @ ''-''
                                @ py_format_0d 2 last_day))))
      | [y] \<Rightarrow> (case int_of y of Inl e \<Rightarrow> Inl e | Inr year \<Rightarrow> Inl ValueError)
      | y # m # z # zs \<Rightarrow>
          (case int_of y of
             Inl e \<Rightarrow> Inl e
           | Inr year \<Rightarrow>
               (case int_of m of
                  Inl e \<Rightarrow> Inl e
                | Inr month \<Rightarrow> (case int_of z of Inl e \<Rightarrow> Inl e | Inr third \<Rightarrow> Inl ValueError)))
      | [] \<Rightarrow> Inl ValueError)"

definition add_months :: "int \<Rightarrow> int \<Rightarrow> int \<Rightarrow> int \<times> int" where
  "add_months year month delta =
     (let total = (year * 12 + (month - 1)) + delta
      in (total div 12, total mod 12 + 1))"

subsection \<open>analytics\_service: summarize and compare\_months\<close>

text \<open>The rows of \<^verbatim>\<open>WHERE date BETWEEN ? AND ?\<close>, with the optional category clause.\<close>

definition range_rows :: "ledger \<Rightarrow> string \<Rightarrow> string \<Rightarrow> string option \<Rightarrow> expense list" where
  "range_rows db start_date end_date cat =
     filter (\<lambda>r. between (date r) start_date end_date \<and> category_clause cat r) db"







subsection \<open>analytics\_service: analyze\_trends and category\_analytics\<close>

text \<open>
  The expression grouped on: the date itself for \<^verbatim>\<open>day\<close>, \<^verbatim>\<open>strftime('%Y-W%W', date)\<close> for
  \<^verbatim>\<open>week\<close>, \<^verbatim>\<open>strftime('%Y-%m', date)\<close> for anything else. \<open>strftime\<close> is SQLite's function, NULL
  on a text that it does not read as a date. NULL sorts before every text.
\<close>

definition period_key :: "(string \<Rightarrow> string \<Rightarrow> string option) \<Rightarrow> string \<Rightarrow> expense \<Rightarrow> string option" where
  "period_key strftime group_by r =
     (if group_by = ''day'' then Some (date r)
      else if group_by = ''week'' then strftime ''%Y-W%W'' (date r)
      else strftime ''%Y-%m'' (date r))"

record trend =
  period :: "string option"
  expense_count :: nat
  t_total :: real
  t_average :: real
  t_min_amount :: real
  t_max_amount :: real

record trends_result =
  tr_group_by :: string
  tr_start_date :: string
  tr_end_date :: string
  trends :: "trend list"

definition analyze_trends ::
  "float_ops \<Rightarrow> (string \<Rightarrow> string \<Rightarrow> string option) \<Rightarrow> ledger \<Rightarrow> string \<Rightarrow> string \<Rightarrow> string \<Rightarrow>
   trends_result" where
  "analyze_trends fl strftime db start_date end_date group_by =
     (let rows = range_rows db start_date end_date None;
          key = period_key strftime group_by
      in \<lparr> tr_group_by = group_by, tr_start_date = start_date, tr_end_date = end_date,
            trends =
              map (\<lambda>k. let amts = map amount (group_rows key k rows)
                       in \<lparr> period = k, expense_count = length amts,
                             t_total = py_round2 fl (py_or0 (sql_sum fl amts)),
                             t_average = py_round2 fl (py_or0 (sql_avg fl amts)),
                             t_min_amount = py_round2 fl (py_or0 (sql_min amts)),
                             t_max_amount = py_round2 fl (py_or0 (sql_max amts)) \<rparr>)
                (group_keys key rows) \<rparr>)"






text \<open>
  \<^verbatim>\<open>GROUP BY k ORDER BY SUM(amount) DESC\<close>: the keys by descending \<^verbatim>\<open>SUM\<close> of their rows, keys
  with equal sums in ascending order.
\<close>

definition keys_by_total :: "float_ops \<Rightarrow> (expense \<Rightarrow> string) \<Rightarrow> expense list \<Rightarrow> string list" where
  "keys_by_total fl k rows =
     sort_key (\<lambda>v. - fl_sum fl (map amount (group_rows k v rows))) (group_keys k rows)"


subsection \<open>analytics\_service: get\_statistics and forecast\_expenses\<close>

text \<open>
  \<^verbatim>\<open>GROUP BY k ORDER BY SUM(amount) DESC LIMIT 1\<close> followed by \<^verbatim>\<open>fetchone()\<close>: the key with the
  largest sum and that sum, \<^verbatim>\<open>None\<close> when there is no row.
\<close>

definition top_group ::
  "float_ops \<Rightarrow> (expense \<Rightarrow> string) \<Rightarrow> expense list \<Rightarrow> (string \<times> real) option" where
  "top_group fl k rows =
     (case keys_by_total fl k rows of
        [] \<Rightarrow> None
      | v # vs \<Rightarrow> Some (v, fl_sum fl (map amount (group_rows k v rows))))"

record statistics =
  gs_start_date :: string
  gs_end_date :: string
  total_expenses :: nat
  gs_total_spent :: real
  average_expense :: real
  min_expense :: real
  max_expense :: real
  daily_average :: real
  most_expensive_day :: "string option \<times> real"
  top_category :: "string option \<times> real"

text \<open>
  \<open>day_number\<close> is \<^verbatim>\<open>datetime.strptime(s, "%Y-%m-%d")\<close> counted in days, \<^verbatim>\<open>ValueError\<close> for a text
  that is no such date; the difference of two of them is \<^verbatim>\<open>.days\<close> of the difference of the
  dates.
\<close>

definition get_statistics ::
  "float_ops \<Rightarrow> (string \<Rightarrow> py_error + int) \<Rightarrow> ledger \<Rightarrow> string \<Rightarrow> string \<Rightarrow> py_error + statistics" where
  "get_statistics fl day_number db start_date end_date =
     (let rows = range_rows db start_date end_date None;
          amts = map amount rows;
          expensive_day = top_group fl date rows;
          top = top_group fl category rows
      in case day_number end_date of
           Inl e \<Rightarrow> Inl e
         | Inr d2 \<Rightarrow>
             (case day_number start_date of
                Inl e \<Rightarrow> Inl e
              | Inr d1 \<Rightarrow>
                  (let days_diff = d2 - d1 + 1;
                       total_sum = py_or0 (sql_sum fl amts)
                   in case (if days_diff > 0 then py_truediv fl total_sum (real_of_int days_diff)
                            else Inr 0) of
                        Inl e \<Rightarrow> Inl e
                      | Inr daily_avg \<Rightarrow>
                          Inr \<lparr> gs_start_date = start_date, gs_end_date = end_date,
                                total_expenses = length rows,
                                gs_total_spent = py_round2 fl total_sum,
                                average_expense = py_round2 fl (py_or0 (sql_avg fl amts)),
                                min_expense = py_round2 fl (py_or0 (sql_min amts)),
                                max_expense = py_round2 fl (py_or0 (sql_max amts)),
                                daily_average = py_round2 fl daily_avg,
                                most_expensive_day =
                                  (case expensive_day of
                                     None \<Rightarrow> (None, 0)
                                   | Some (d, t) \<Rightarrow> (Some d, py_round2 fl t)),
                                top_category =
                                  (case top of
                                     None \<Rightarrow> (None, 0)
                                   | Some (c, t) \<Rightarrow> (Some c, py_round2 fl t)) \<rparr>)))"

text \<open>
  \<^verbatim>\<open>datetime.now()\<close> as \<^verbatim>\<open>forecast_expenses\<close> uses it: its year, its month and its rendering by
  \<^verbatim>\<open>strftime("%Y-%m-%d")\<close>.
\<close>

record clock =
  now_year :: int
  now_month :: int
  now_ymd :: string

record projection =
  pj_month :: string
  projected_amount :: real

record total_projection =
  tp_month :: string
  projected_total :: real

record category_forecast =
  fc_category :: string
  historical_avg_monthly :: real
  projections :: "projection list"

record forecast =
  based_on_months :: int
  history_period :: string
  forecast_months :: int
  monthly_average :: real
  total_projections :: "total_projection list"
  category_forecasts :: "category_forecast list"

text \<open>
  The query of \<^verbatim>\<open>forecast_expenses\<close>: inside, the sum of every category and month with rows in
  the window; outside, for every category the average of its monthly sums.
\<close>

definition monthly_totals ::
  "float_ops \<Rightarrow> (string \<Rightarrow> string \<Rightarrow> string option) \<Rightarrow> expense list \<Rightarrow> string \<Rightarrow> real list" where
  "monthly_totals fl strftime rows c =
     (let month = (\<lambda>r. strftime ''%Y-%m'' (date r));
          crows = group_rows category c rows
      in map (\<lambda>m. fl_sum fl (map amount (group_rows month m crows))) (group_keys month crows))"

definition category_averages ::
  "float_ops \<Rightarrow> (string \<Rightarrow> string \<Rightarrow> string option) \<Rightarrow> expense list \<Rightarrow>
   (string \<times> real option) list" where
  "category_averages fl strftime rows =
     map (\<lambda>c. (c, sql_avg fl (monthly_totals fl strftime rows c))) (group_keys category rows)"

text \<open>\<^verbatim>\<open>f"{fy:04d}-{fm:02d}"\<close> for the month \<open>i\<close> months after the current one.\<close>

definition future_month :: "clock \<Rightarrow> int \<Rightarrow> string" where
  "future_month now i =
     (let ym = add_months (now_year now) (now_month now) i
      in py_format_0d 4 (fst ym) @ ''-'' @ py_format_0d 2 (snd ym))"

definition forecast_expenses ::
  "float_ops \<Rightarrow> (string \<Rightarrow> string \<Rightarrow> string option) \<Rightarrow> clock \<Rightarrow> ledger \<Rightarrow> int \<Rightarrow> int \<Rightarrow> forecast" where
  "forecast_expenses fl strftime now db months_ahead based_on_last_months =
     (let hist = add_months (now_year now) (now_month now) (- based_on_last_months);
          history_start = py_format_0d 4 (fst hist) @ ''-'' @ py_format_0d 2 (snd hist) @ ''-01'';
          history_end = now_ymd now;
          rows = range_rows db history_start history_end None;
          cfs = map (\<lambda>(c, avg_spend).
                       \<lparr> fc_category = c,
                         historical_avg_monthly = py_round2 fl (py_or0 avg_spend),
                         projections =
                           map (\<lambda>i. \<lparr> pj_month = future_month now i,
                                        projected_amount = py_round2 fl (py_or0 avg_spend) \<rparr>)
                             [1..months_ahead] \<rparr>)
                  (category_averages fl strftime rows);
          total_monthly_avg = py_sum fl (map historical_avg_monthly cfs)
      in \<lparr> based_on_months = based_on_last_months,
            history_period = history_start @ '' to '' @ history_end,
            forecast_months = months_ahead,
            monthly_average = py_round2 fl total_monthly_avg,
            total_projections =
              map (\<lambda>i. \<lparr> tp_month = future_month now i,
                           projected_total = py_round2 fl total_monthly_avg \<rparr>)
                [1..months_ahead],
            category_forecasts = cfs \<rparr>)"

subsection \<open>The parameters on examples\<close>

text \<open>
  Round to nearest, ties to even, at the 53 significant bits of a double: \<open>binade x\<close> is the
  exponent \<open>e\<close> with \<open>2 ^ e \<le> \<bar>x\<bar> < 2 ^ (e + 1)\<close>, and the doubles of that binade are the
  multiples of \<open>2 ^ (e - 52)\<close>. (Overflow and subnormal numbers are left out: the values of the
  examples are far from both.)
\<close>

definition round_half_even :: "real \<Rightarrow> int" where
  "round_half_even x =
     (let f = \<lfloor>x\<rfloor>; d = x - of_int f
      in if d < 1 / 2 then f else if 1 / 2 < d then f + 1 else if even f then f else f + 1)"

fun log2_floor :: "nat \<Rightarrow> nat" where
  "log2_floor n = (if n < 2 then 0 else Suc (log2_floor (n div 2)))"

declare log2_floor.simps [simp del]

definition binade :: "real \<Rightarrow> int" where
  "binade x =
     (if 1 \<le> \<bar>x\<bar> then int (log2_floor (nat \<lfloor>\<bar>x\<bar>\<rfloor>))
      else - int (Suc (log2_floor (nat \<lceil>1 / \<bar>x\<bar>\<rceil> - 1))))"

definition to_double :: "real \<Rightarrow> real" where
  "to_double x =
     (if x = 0 then 0
      else let e = binade x
           in if 52 \<le> e then of_int (round_half_even (x / 2 ^ nat (e - 52))) * 2 ^ nat (e - 52)
              else of_int (round_half_even (x * 2 ^ nat (52 - e))) / 2 ^ nat (52 - e))"

text \<open>
  The decimal number with two places nearest to \<open>x\<close>, ties to the even last place: what
  \<^verbatim>\<open>round(x, 2)\<close> converts back to a double.
\<close>

definition round2 :: "real \<Rightarrow> real" where
  "round2 x = of_int (round_half_even (x * 100)) / 100"

text \<open>
  The operations on doubles, for running the functions on examples: every operation is the
  exact one followed by rounding to a double, and a sum adds the values from the left. (SQLite
  from version 3.44 and Python from version 3.12 carry a correction term along a sum; it is
  zero as long as no addition rounds, which is the case in every example below.)
\<close>

definition double_sum :: "real list \<Rightarrow> real" where
  "double_sum xs = foldl (\<lambda>s x. to_double (s + x)) 0 xs"

definition double_ops :: float_ops where
  "double_ops =
     \<lparr> fl_sum = double_sum,
       fl_avg = (\<lambda>xs. to_double (double_sum xs / real (length xs))),
       fl_add = (\<lambda>a b. to_double (a + b)),
       fl_sub = (\<lambda>a b. to_double (a - b)),
       fl_mul = (\<lambda>a b. to_double (a * b)),
       fl_div = (\<lambda>a b. to_double (a / b)),
       fl_pysum = double_sum,
       fl_round2 = (\<lambda>x. to_double (round2 x)) \<rparr>"

text \<open>
  SQLite's \<^verbatim>\<open>LIKE\<close> without \<^verbatim>\<open>ESCAPE\<close>, for running the search on examples: \<^verbatim>\<open>%\<close> stands for
  any run of characters, \<^verbatim>\<open>_\<close> for one character, and the letters A to Z match in either case.
\<close>

fun like_match :: "string \<Rightarrow> string \<Rightarrow> bool" where
  "like_match [] t = (t = [])"
| "like_match (p # ps) [] = (p = CHR ''%'' \<and> like_match ps [])"
| "like_match (p # ps) (c # cs) =
     (if p = CHR ''%'' then like_match ps (c # cs) \<or> like_match (p # ps) cs
      else (p = CHR ''_'' \<or> lower_char p = lower_char c) \<and> like_match ps cs)"

definition sql_like :: "string \<Rightarrow> string \<Rightarrow> bool" where
  "sql_like t p = like_match p t"

text \<open>
  SQLite's \<^verbatim>\<open>strftime\<close> for running the functions on examples: on the format \<^verbatim>\<open>%Y-%m\<close> and a
  date of ten characters it gives the first seven, as SQLite does for a date written
  \<^verbatim>\<open>YYYY-MM-DD\<close>; otherwise NULL.
\<close>

definition strftime_month :: "string \<Rightarrow> string \<Rightarrow> string option" where
  "strftime_month fmt d = (if fmt = ''%Y-%m'' \<and> length d = 10 then Some (take 7 d) else None)"

text \<open>
  Python's \<^verbatim>\<open>int()\<close> for running the functions on examples, on strings of ASCII characters:
  surrounding whitespace (space, tab, line feed, vertical tab, form feed, carriage return), an
  optional sign, decimal digits with single underscores between them; anything else raises
  \<^verbatim>\<open>ValueError\<close>.
\<close>

definition is_space :: "char \<Rightarrow> bool" where
  "is_space c = (c \<in> set [CHR '' '', CHR 0x09, CHR 0x0A, CHR 0x0B, CHR 0x0C, CHR 0x0D])"

definition strip :: "string \<Rightarrow> string" where
  "strip s = rev (dropWhile is_space (rev (dropWhile is_space s)))"

definition is_digit :: "char \<Rightarrow> bool" where
  "is_digit c = (c \<in> set ''0123456789'')"

definition digit_val :: "char \<Rightarrow> nat" where
  "digit_val c = length (takeWhile (\<lambda>d. d \<noteq> c) ''0123456789'')"

fun digits_value :: "nat \<Rightarrow> string \<Rightarrow> nat option" where
  "digits_value acc [] = Some acc"
| "digits_value acc [c] = (if is_digit c then Some (acc * 10 + digit_val c) else None)"
| "digits_value acc (c # d # ds) =
     (if is_digit c then digits_value (acc * 10 + digit_val c) (d # ds)
      else if c = CHR ''_'' \<and> is_digit d then digits_value (acc * 10 + digit_val d) ds
      else None)"

definition ascii_int :: "string \<Rightarrow> py_error + int" where
  "ascii_int s =
     (let t = strip s;
          neg = (case t of [] \<Rightarrow> False | c # cs \<Rightarrow> c = CHR ''-'');
          u = (case t of [] \<Rightarrow> [] | c # cs \<Rightarrow> if c = CHR ''-'' \<or> c = CHR ''+'' then cs else t)
      in case u of
           [] \<Rightarrow> Inl ValueError
         | d # ds \<Rightarrow>
             (if is_digit d
              then (case digits_value (digit_val d) ds of
                      None \<Rightarrow> Inl ValueError
                    | Some n \<Rightarrow> Inr (if neg then - int n else int n))
              else Inl ValueError))"

subsection \<open>Example rows\<close>

text \<open>
  The three rows of the specification's example (50 and 30 for food, 20 for transport, in June
  2025), and a refund of 5 in July.
\<close>

definition food_row1 :: expense where
  "food_row1 =
     \<lparr> expense_id = 1, date = ''2025-06-01'', amount = 50, category = ''food'',
       subcategory = Some [], expense_note = Some ''Lunch'', tax_deductible = Some 0,
       currency = Some ''EUR'', payment_method = Some [] \<rparr>"

definition food_row2 :: expense where
  "food_row2 =
     \<lparr> expense_id = 2, date = ''2025-06-15'', amount = 30, category = ''food'',
       subcategory = Some [], expense_note = Some [], tax_deductible = Some 0,
       currency = Some ''EUR'', payment_method = Some [] \<rparr>"

definition transport_row :: expense where
  "transport_row =
     \<lparr> expense_id = 3, date = ''2025-06-20'', amount = 20, category = ''transport'',
       subcategory = Some [], expense_note = None, tax_deductible = Some 1,
       currency = Some ''EUR'', payment_method = Some [] \<rparr>"

definition refund_row :: expense where
  "refund_row =
     \<lparr> expense_id = 4, date = ''2025-07-02'', amount = - 5, category = ''food'',
       subcategory = None, expense_note = Some ''refund'', tax_deductible = Some 0,
       currency = Some ''EUR'', payment_method = None \<rparr>"

definition june_ledger :: ledger where
  "june_ledger = [food_row1, food_row2, transport_row]"

text \<open>The last day of June 2025, for running the forecast on the example rows.\<close>

definition june_end :: clock where
  "june_end = \<lparr> now_year = 2025, now_month = 6, now_ymd = ''2025-06-30'' \<rparr>"

text \<open>A deductible row whose subcategory names an insurance in mixed case.\<close>

definition insurance_row :: expense where
  "insurance_row =
     \<lparr> expense_id = 1, date = ''2025-03-01'', amount = 120, category = ''housing'',
       subcategory = Some ''Health INSURANCE'', expense_note = None, tax_deductible = Some 1,
       currency = Some ''EUR'', payment_method = None \<rparr>"



definition eighth_row :: expense where
  "eighth_row =
     \<lparr> expense_id = 1, date = ''2025-06-10'', amount = 1 / 8, category = ''food'',
       subcategory = None, expense_note = None, tax_deductible = Some 0,
       currency = Some ''EUR'', payment_method = None \<rparr>"



section \<open>Properties\<close>

subsection \<open>Strings and dictionaries\<close>

lemma startswith_iff: "startswith s p \<longleftrightarrow> (\<exists>suf. s = p @ suf)"
  by (induction s p rule: startswith.induct) auto

lemma str_contains_iff: "str_contains n h \<longleftrightarrow> (\<exists>pre suf. h = pre @ n @ suf)"
proof (induction h)
  case Nil
  show ?case by simp
next
  case (Cons c cs)
  show ?case
  proof
    assume "str_contains n (c # cs)"
    then consider "startswith (c # cs) n" | "str_contains n cs" by auto
    then show "\<exists>pre suf. c # cs = pre @ n @ suf"
    proof cases
      case 1
      then obtain suf where "c # cs = n @ suf" unfolding startswith_iff by blast
      then have "c # cs = [] @ n @ suf" by simp
      then show ?thesis by blast
    next
      case 2
      then obtain pre suf where "cs = pre @ n @ suf" using Cons.IH by blast
      then have "c # cs = (c # pre) @ n @ suf" by simp
      then show ?thesis by blast
    qed
  next
    assume "\<exists>pre suf. c # cs = pre @ n @ suf"
    then obtain pre suf where e: "c # cs = pre @ n @ suf" by blast
    show "str_contains n (c # cs)"
    proof (cases pre)
      case Nil
      with e have "c # cs = n @ suf" by simp
      then have "startswith (c # cs) n" unfolding startswith_iff by blast
      then show ?thesis by simp
    next
      case (Cons p ps)
      with e have "cs = ps @ n @ suf" by simp
      then have "str_contains n cs" using Cons.IH by blast
      then show ?thesis by simp
    qed
  qed
qed

lemma map_eq_appendD:
  "map f xs = ys @ zs \<Longrightarrow> \<exists>us vs. xs = us @ vs \<and> map f us = ys \<and> map f vs = zs"
  by (metis append_eq_conv_conj drop_map take_map append_take_drop_id)

lemma lower_contains_iff:
  "(\<exists>pre suf. lower s = pre @ n @ suf) \<longleftrightarrow> (\<exists>pre w suf. s = pre @ w @ suf \<and> lower w = n)"
proof
  assume "\<exists>pre suf. lower s = pre @ n @ suf"
  then obtain pre suf where "map lower_char s = pre @ (n @ suf)" by (auto simp: lower_def)
  from map_eq_appendD[OF this] obtain a r where
    a: "s = a @ r" "map lower_char a = pre" "map lower_char r = n @ suf"
    by blast
  from map_eq_appendD[OF a(3)] obtain w b where
    w: "r = w @ b" "map lower_char w = n" "map lower_char b = suf"
    by blast
  from a(1) w(1,2) have "s = a @ w @ b \<and> lower w = n" by (simp add: lower_def)
  then show "\<exists>pre w suf. s = pre @ w @ suf \<and> lower w = n" by blast
next
  assume "\<exists>pre w suf. s = pre @ w @ suf \<and> lower w = n"
  then obtain pre w suf where "s = pre @ w @ suf" "lower w = n" by blast
  then have "lower s = lower pre @ n @ lower suf" by (simp add: lower_def)
  then show "\<exists>pre suf. lower s = pre @ n @ suf" by blast
qed

lemma py_or_empty_eq: "py_or_empty sub = (case sub of None \<Rightarrow> [] | Some s \<Rightarrow> s)"
  by (cases sub) auto

lemma tax_bucket_in_labels: "tax_bucket cat sub \<in> set tax_bucket_labels"
  by (simp add: tax_bucket_def tax_bucket_labels_def)

lemma dict_modify_ok:
  "k \<in> set (map fst kvs) \<Longrightarrow>
   \<exists>kvs'. dict_modify k f kvs = Inr kvs' \<and> map fst kvs' = map fst kvs"
proof (induction kvs)
  case Nil
  then show ?case by simp
next
  case (Cons a kvs)
  obtain k' v where a: "a = (k', v)" by (cases a)
  show ?case
  proof (cases "k = k'")
    case True
    with a show ?thesis by simp
  next
    case False
    with Cons.prems a have "k \<in> set (map fst kvs)" by auto
    from Cons.IH[OF this] obtain r where "dict_modify k f kvs = Inr r" "map fst r = map fst kvs"
      by blast
    with a False show ?thesis by simp
  qed
qed

lemma dict_modify_map_of:
  "dict_modify k f kvs = Inr kvs' \<Longrightarrow>
   map_of kvs' b = (if b = k then map_option f (map_of kvs b) else map_of kvs b)"
proof (induction kvs arbitrary: kvs')
  case Nil
  then show ?case by simp
next
  case (Cons p kvs)
  obtain k' v where p: "p = (k', v)" by (cases p)
  show ?case
  proof (cases "k = k'")
    case True
    with Cons.prems p have "kvs' = (k', f v) # kvs" by simp
    with True p show ?thesis by simp
  next
    case False
    with Cons.prems p obtain r where r: "dict_modify k f kvs = Inr r" "kvs' = (k', v) # r"
      by (cases "dict_modify k f kvs") auto
    have ih: "map_of r b = (if b = k then map_option f (map_of kvs b) else map_of kvs b)"
      by (rule Cons.IH[OF r(1)])
    show ?thesis
    proof (cases "b = k")
      case True
      with ih have "map_of r k = map_option f (map_of kvs k)" by simp
      with True r(2) p False show ?thesis by simp
    next
      case b: False
      with ih have "map_of r b = map_of kvs b" by simp
      with b r(2) p show ?thesis by simp
    qed
  qed
qed


lemma tax_step_ok:
  assumes "map fst (fst st) = tax_bucket_labels" "map fst (snd st) = tax_bucket_labels"
  shows "\<exists>tc tot. tax_step fl ex st = Inr (tc, tot) \<and> map fst tc = tax_bucket_labels
           \<and> map fst tot = tax_bucket_labels
           \<and> (\<forall>b. map_of tc b = (if b = bucket_of ex then map_option (\<lambda>l. l @ [ex]) (map_of (fst st) b)
                                     else map_of (fst st) b))"
proof -
  let ?k = "bucket_of ex"
  let ?f = "\<lambda>t. fl_add fl t (py_or0 (Some (amount ex)))"
  have k1: "?k \<in> set (map fst (fst st))" and k2: "?k \<in> set (map fst (snd st))"
    using assms tax_bucket_in_labels by (simp_all add: bucket_of_def)
  from dict_modify_ok[OF k1] obtain tc where
    tc: "dict_modify ?k (\<lambda>l. l @ [ex]) (fst st) = Inr tc" "map fst tc = map fst (fst st)" by blast
  from dict_modify_ok[OF k2, of ?f] obtain tot where
    tot: "dict_modify ?k ?f (snd st) = Inr tot" "map fst tot = map fst (snd st)" by blast
  have a: "tax_step fl ex st = Inr (tc, tot)"
    using tc(1) tot(1) by (simp add: tax_step_def Let_def)
  have b: "map fst tc = tax_bucket_labels" "map fst tot = tax_bucket_labels"
    using tc(2) tot(2) assms by simp_all
  show ?thesis
    by (intro exI[of _ tc] exI[of _ tot] conjI allI a b dict_modify_map_of[OF tc(1)])
qed

lemma tax_loop_ok:
  "map fst (fst st) = tax_bucket_labels \<Longrightarrow> map fst (snd st) = tax_bucket_labels \<Longrightarrow>
   \<exists>tc tot. tax_loop fl exs st = Inr (tc, tot) \<and> map fst tc = tax_bucket_labels
      \<and> map fst tot = tax_bucket_labels
      \<and> (\<forall>b. map_of tc b =
                 map_option (\<lambda>l. l @ filter (\<lambda>e. bucket_of e = b) exs) (map_of (fst st) b))"
proof (induction exs arbitrary: st)
  case Nil
  have a: "tax_loop fl [] st = Inr (fst st, snd st)" by simp
  have b: "map_of (fst st) b = map_option (\<lambda>l. l @ filter (\<lambda>e. bucket_of e = b) []) (map_of (fst st) b)" for b
    by (simp add: option.map_ident)
  show ?case
    by (intro exI[of _ "fst st"] exI[of _ "snd st"] conjI allI a b Nil)
next
  case (Cons ex exs)
  from tax_step_ok[OF Cons.prems, of fl ex] obtain tc1 tot1 where
    s: "tax_step fl ex st = Inr (tc1, tot1)" "map fst tc1 = tax_bucket_labels"
       "map fst tot1 = tax_bucket_labels"
       "\<And>b. map_of tc1 b = (if b = bucket_of ex then map_option (\<lambda>l. l @ [ex]) (map_of (fst st) b)
                                     else map_of (fst st) b)"
    by blast
  from Cons.IH[of "(tc1, tot1)"] s(2,3) obtain tc tot where
    l: "tax_loop fl exs (tc1, tot1) = Inr (tc, tot)" "map fst tc = tax_bucket_labels"
       "map fst tot = tax_bucket_labels"
       "\<And>b. map_of tc b = map_option (\<lambda>l. l @ filter (\<lambda>e. bucket_of e = b) exs) (map_of tc1 b)"
    by auto
  have a: "tax_loop fl (ex # exs) st = Inr (tc, tot)" using s(1) l(1) by simp
  have b: "map_of tc b =
      map_option (\<lambda>l. l @ filter (\<lambda>e. bucket_of e = b) (ex # exs)) (map_of (fst st) b)" for b
    unfolding l(4) s(4) by (cases "map_of (fst st) b") auto
  show ?case
    by (intro exI[of _ tc] exI[of _ tot] conjI allI a b l(2,3))
qed

lemma tax_init_keys:
  "map fst (fst tax_init) = tax_bucket_labels" "map fst (snd tax_init) = tax_bucket_labels"
  by (simp_all add: tax_init_def comp_def)

lemma tax_init_lookup:
  "b \<in> set tax_bucket_labels \<Longrightarrow> map_of (fst tax_init) b = Some []"
  by (auto simp: tax_init_def tax_bucket_labels_def)

lemma tax_loop_init:
  "\<exists>tc tot. tax_loop fl exs tax_init = Inr (tc, tot) \<and> map fst tc = tax_bucket_labels
      \<and> (\<forall>b \<in> set tax_bucket_labels. map_of tc b = Some (filter (\<lambda>e. bucket_of e = b) exs))"
proof -
  from tax_loop_ok[OF tax_init_keys, of fl exs] obtain tc tot where
    l: "tax_loop fl exs tax_init = Inr (tc, tot)" "map fst tc = tax_bucket_labels"
       "\<And>b. map_of tc b =
                 map_option (\<lambda>l. l @ filter (\<lambda>e. bucket_of e = b) exs) (map_of (fst tax_init) b)"
    by blast
  have "map_of tc b = Some (filter (\<lambda>e. bucket_of e = b) exs)" if "b \<in> set tax_bucket_labels" for b
    unfolding l(3) using tax_init_lookup[OF that] by simp
  with l(1,2) show ?thesis by blast
qed

lemma tax_summary_returns: "\<exists>r. tax_summary fl db year c = Inr r"
proof -
  from tax_loop_init[of fl "tax_expenses db year c"] obtain tc tot where
    "tax_loop fl (tax_expenses db year c) tax_init = Inr (tc, tot)" by blast
  then show ?thesis by (simp add: tax_summary_def Let_def)
qed

lemma tax_bucket_priority:
  "tax_bucket cat sub =
     (if cat = ''business'' \<or> cat = ''education'' \<or> cat = ''subscriptions''
        then ''Werbungskosten (Work-related)''
      else if cat = ''health'' then ''Gesundheitskosten (Health)''
      else if (\<exists>pre w suf. (case sub of None \<Rightarrow> [] | Some s \<Rightarrow> s) = pre @ w @ suf
                 \<and> lower w = ''insurance'')
        then ''Versicherungen (Insurance)''
      else if cat = ''gifts_donations'' then ''Spenden (Donations)''
      else ''Sonstige (Other)'')"
  unfolding tax_bucket_def str_contains_iff lower_contains_iff py_or_empty_eq by simp

lemma insurance_row_bucket: "bucket_of insurance_row = ''Versicherungen (Insurance)''"
  by (simp add: bucket_of_def tax_bucket_def insurance_row_def lower_def lower_char_def)


subsection \<open>The tax classifier\<close>

text \<open>
  C1. The classifier is a function of the row's category and subcategory that follows the
  priority order of the specification: a category among business, education and subscriptions
  gives the work-related bucket; else the category health gives the health bucket; else a
  subcategory containing a word that reads \<^verbatim>\<open>insurance\<close> once lowered gives the insurance
  bucket; else the category gifts\_donations gives the donations bucket; else the bucket is
  the other one. The bucket is always one of the five distinct labels, so the loop of
  \<^verbatim>\<open>tax_summary\<close> never raises \<^verbatim>\<open>KeyError\<close>: it ends with every row in the list of its own
  bucket and in no other list, and \<^verbatim>\<open>tax_summary\<close> returns a result.
\<close>

theorem tax_classifier_total:
  "tax_bucket cat sub =
     (if cat = ''business'' \<or> cat = ''education'' \<or> cat = ''subscriptions''
        then ''Werbungskosten (Work-related)''
      else if cat = ''health'' then ''Gesundheitskosten (Health)''
      else if (\<exists>pre w suf. (case sub of None \<Rightarrow> [] | Some s \<Rightarrow> s) = pre @ w @ suf
                 \<and> lower w = ''insurance'')
        then ''Versicherungen (Insurance)''
      else if cat = ''gifts_donations'' then ''Spenden (Donations)''
      else ''Sonstige (Other)'')
   \<and> tax_bucket cat sub \<in> set tax_bucket_labels
   \<and> distinct tax_bucket_labels \<and> length tax_bucket_labels = 5
   \<and> (\<exists>tc tot. tax_loop fl exs tax_init = Inr (tc, tot) \<and> map fst tc = tax_bucket_labels
          \<and> (\<forall>b \<in> set tax_bucket_labels.
                 map_of tc b = Some (filter (\<lambda>e. bucket_of e = b) exs)))
   \<and> (\<exists>r. tax_summary fl db year c = Inr r)"
proof (intro conjI)
  show "distinct tax_bucket_labels" by (simp add: tax_bucket_labels_def)
  show "length tax_bucket_labels = 5" by (simp add: tax_bucket_labels_def)
qed (rule tax_bucket_priority tax_bucket_in_labels tax_loop_init tax_summary_returns)+

theorem tax_classifier_total_witness:
  "\<exists>tc tot. tax_loop double_ops [insurance_row] tax_init = Inr (tc, tot)
      \<and> map_of tc ''Versicherungen (Insurance)'' = Some [insurance_row]
      \<and> map_of tc ''Sonstige (Other)'' = Some []"
  using tax_classifier_total [of "''housing''" "Some ''Health INSURANCE''" double_ops "[insurance_row]" "[]" 2025 None]
  by (auto simp: insurance_row_bucket tax_bucket_labels_def)

subsection \<open>Editing and deleting\<close>

lemma bind_int_ok: "in_int64 i \<Longrightarrow> bind_int i = Inr i"
  by (simp add: bind_int_def)

lemma bind_int_overflow: "\<not> in_int64 i \<Longrightarrow> bind_int i = Inl OverflowError"
  by (simp add: bind_int_def)










lemma int64_examples: "in_int64 7" "in_int64 1" "in_int64 0" "in_int64 100" "in_int64 (- 1)"
  "\<not> in_int64 (2 ^ 63)"
  by (simp_all add: in_int64_def)




subsection \<open>Searching\<close>

lemma length_limit_offset_le: "length (limit_offset l ofs xs) \<le> length xs"
  by (auto simp: limit_offset_def Let_def)

lemma length_limit_offset:
  "0 \<le> l \<Longrightarrow> 0 \<le> ofs \<Longrightarrow>
   int (length (limit_offset l ofs xs)) =
     (if int (length xs) \<le> ofs then 0 else min l (int (length xs) - ofs))"
  by (auto simp: limit_offset_def Let_def min_def)

lemma limit_offset_all: "limit_offset (- 1) 0 xs = xs"
  by (simp add: limit_offset_def)

lemma set_limit_offset: "set (limit_offset l ofs xs) \<subseteq> set xs"
  by (auto simp: limit_offset_def Let_def dest: in_set_dropD in_set_takeD)

lemma length_order_newest_first: "length (order_newest_first xs) = length xs"
  by (simp add: order_newest_first_def)

lemma set_order_newest_first: "set (order_newest_first xs) = set xs"
  by (simp add: order_newest_first_def)

lemma search_where_no_filter: "search_where like None None None None None None None r"
  by (simp add: search_where_def)

lemma bind_optional_ok: "(\<forall>t. td = Some t \<longrightarrow> in_int64 t) \<Longrightarrow> bind_optional td = Inr td"
  by (cases td) (simp_all add: bind_int_ok)

lemma bind_optional_overflow:
  "\<not> (\<forall>t. td = Some t \<longrightarrow> in_int64 t) \<Longrightarrow> bind_optional td = Inl OverflowError"
  by (cases td) (simp_all add: bind_int_overflow)

lemma search_ok:
  "in_int64 lmt \<Longrightarrow> in_int64 ofs \<Longrightarrow> (\<forall>t. td = Some t \<longrightarrow> in_int64 t) \<Longrightarrow>
   search_expenses like db sd ed c mn mx nc td lmt ofs =
     Inr \<lparr> results = limit_offset lmt ofs
                        (order_newest_first (filter (search_where like sd ed c mn mx nc td) db)),
           total_count = length (filter (search_where like sd ed c mn mx nc td) db),
           sr_limit = lmt, sr_offset = ofs \<rparr>"
  by (simp add: search_expenses_def bind_optional_ok bind_int_ok Let_def)

lemma search_overflow:
  assumes "\<not> (in_int64 lmt \<and> in_int64 ofs \<and> (\<forall>t. td = Some t \<longrightarrow> in_int64 t))"
  shows "search_expenses like db sd ed c mn mx nc td lmt ofs = Inl OverflowError"
proof (cases "\<forall>t. td = Some t \<longrightarrow> in_int64 t")
  case False
  then show ?thesis by (simp add: search_expenses_def bind_optional_overflow)
next
  case td: True
  show ?thesis
  proof (cases "in_int64 lmt")
    case False
    then show ?thesis by (simp add: search_expenses_def bind_optional_ok[OF td] bind_int_overflow)
  next
    case True
    with assms td have "\<not> in_int64 ofs" by blast
    with True show ?thesis
      by (simp add: search_expenses_def bind_optional_ok[OF td] bind_int_ok bind_int_overflow)
  qed
qed

lemma june_order: "order_newest_first june_ledger = [transport_row, food_row2, food_row1]"
  by (simp add: order_newest_first_def june_ledger_def food_row1_def food_row2_def transport_row_def)

text \<open>
  C2, as the code has it. The limit, the offset and a \<^verbatim>\<open>tax_deductible\<close> filter reach SQLite as
  parameters, so they have to fit a signed 64-bit integer; otherwise the search raises
  \<^verbatim>\<open>OverflowError\<close>. Within that range, for every combination of filters, \<^verbatim>\<open>total_count\<close> is the
  number of rows the same search returns without pagination (limit \<open>-1\<close>, offset 0), it is at
  least the number of rows returned, and it does not change with the limit and the offset.
  With no filter it is the number of rows of the table, and when the limit and the offset are
  both non-negative the result has \<open>min(limit, N - offset)\<close> rows, or none when the offset is
  \<open>N\<close> or more.
\<close>

theorem search_total_count:
  "(in_int64 lmt \<and> in_int64 ofs \<and> in_int64 lmt' \<and> in_int64 ofs'
      \<and> (\<forall>t. td = Some t \<longrightarrow> in_int64 t) \<longrightarrow>
      (\<exists>res res' unpaged.
          search_expenses like db sd ed c mn mx nc td lmt ofs = Inr res
        \<and> search_expenses like db sd ed c mn mx nc td lmt' ofs' = Inr res'
        \<and> search_expenses like db sd ed c mn mx nc td (- 1) 0 = Inr unpaged
        \<and> total_count res = length (results unpaged)
        \<and> length (results res) \<le> total_count res
        \<and> total_count res = total_count res'))
   \<and> (in_int64 lmt \<and> in_int64 ofs \<longrightarrow>
        (\<exists>res. search_expenses like db None None None None None None None lmt ofs = Inr res
           \<and> total_count res = length db
           \<and> (0 \<le> lmt \<and> 0 \<le> ofs \<longrightarrow>
                int (length (results res))
                  = (if int (length db) \<le> ofs then 0 else min lmt (int (length db) - ofs)))))
   \<and> (\<not> (in_int64 lmt \<and> in_int64 ofs \<and> (\<forall>t. td = Some t \<longrightarrow> in_int64 t)) \<longrightarrow>
        search_expenses like db sd ed c mn mx nc td lmt ofs = Inl OverflowError)"
proof (intro conjI impI)
  let ?wh = "search_where like sd ed c mn mx nc td"
  assume a: "in_int64 lmt \<and> in_int64 ofs \<and> in_int64 lmt' \<and> in_int64 ofs'
      \<and> (\<forall>t. td = Some t \<longrightarrow> in_int64 t)"
  have le: "length (limit_offset lmt ofs (order_newest_first (filter ?wh db))) \<le> length (filter ?wh db)"
    using length_limit_offset_le[of lmt ofs "order_newest_first (filter ?wh db)"]
    by (simp add: length_order_newest_first)
  from a have 1: "search_expenses like db sd ed c mn mx nc td lmt ofs =
     Inr \<lparr> results = limit_offset lmt ofs (order_newest_first (filter ?wh db)),
           total_count = length (filter ?wh db), sr_limit = lmt, sr_offset = ofs \<rparr>"
    by (intro search_ok) simp_all
  from a have 2: "search_expenses like db sd ed c mn mx nc td lmt' ofs' =
     Inr \<lparr> results = limit_offset lmt' ofs' (order_newest_first (filter ?wh db)),
           total_count = length (filter ?wh db), sr_limit = lmt', sr_offset = ofs' \<rparr>"
    by (intro search_ok) simp_all
  from a have 3: "search_expenses like db sd ed c mn mx nc td (- 1) 0 =
     Inr \<lparr> results = limit_offset (- 1) 0 (order_newest_first (filter ?wh db)),
           total_count = length (filter ?wh db), sr_limit = - 1, sr_offset = 0 \<rparr>"
    by (intro search_ok) (simp_all add: int64_examples)
  show "\<exists>res res' unpaged.
          search_expenses like db sd ed c mn mx nc td lmt ofs = Inr res
        \<and> search_expenses like db sd ed c mn mx nc td lmt' ofs' = Inr res'
        \<and> search_expenses like db sd ed c mn mx nc td (- 1) 0 = Inr unpaged
        \<and> total_count res = length (results unpaged)
        \<and> length (results res) \<le> total_count res
        \<and> total_count res = total_count res'"
    unfolding 1 2 3 using le by (simp add: limit_offset_all length_order_newest_first)
next
  assume a: "in_int64 lmt \<and> in_int64 ofs"
  have all: "filter (search_where like None None None None None None None) db = db"
    by (simp add: search_where_no_filter)
  from a have 1: "search_expenses like db None None None None None None None lmt ofs =
     Inr \<lparr> results = limit_offset lmt ofs (order_newest_first db),
           total_count = length db, sr_limit = lmt, sr_offset = ofs \<rparr>"
    using search_ok[of lmt ofs None like db None None None None None None] by (simp add: all)
  show "\<exists>res. search_expenses like db None None None None None None None lmt ofs = Inr res
           \<and> total_count res = length db
           \<and> (0 \<le> lmt \<and> 0 \<le> ofs \<longrightarrow>
                int (length (results res))
                  = (if int (length db) \<le> ofs then 0 else min lmt (int (length db) - ofs)))"
    unfolding 1 using length_limit_offset[of lmt ofs "order_newest_first db"]
    by (simp add: length_order_newest_first)
next
  assume "\<not> (in_int64 lmt \<and> in_int64 ofs \<and> (\<forall>t. td = Some t \<longrightarrow> in_int64 t))"
  then show "search_expenses like db sd ed c mn mx nc td lmt ofs = Inl OverflowError"
    by (rule search_overflow)
qed

lemma search_june_page:
  "search_expenses sql_like june_ledger None None None None None None None 1 1
     = Inr \<lparr> results = [food_row2], total_count = 3, sr_limit = 1, sr_offset = 1 \<rparr>"
  by (simp add: search_expenses_def bind_int_def in_int64_def Let_def search_where_no_filter
        june_order limit_offset_def)
     (simp add: june_ledger_def)

theorem search_total_count_witness:
  "search_expenses sql_like june_ledger None None None None None None None 1 1
     = Inr \<lparr> results = [food_row2], total_count = 3, sr_limit = 1, sr_offset = 1 \<rparr>
   \<and> search_expenses sql_like june_ledger None None None None None None None (2 ^ 63) 0
     = Inl OverflowError"
  using search_total_count [of 1 1 1 1 None sql_like june_ledger None None None None None None]
    search_total_count [of "2 ^ 63" 0 1 1 None sql_like june_ledger None None None None None None]
  by (simp add: search_june_page in_int64_def)

text \<open>
  The length formula of C2 does not hold for a negative limit, which SQLite reads as no
  limit: over three rows, limit \<open>-1\<close> and offset 0 return three rows, not \<open>min(-1, 3)\<close>.
\<close>

theorem search_negative_limit_counterexample:
  "search_expenses sql_like june_ledger None None None None None None None (- 1) 0
     = Inr \<lparr> results = [transport_row, food_row2, food_row1], total_count = 3,
             sr_limit = - 1, sr_offset = 0 \<rparr>
   \<and> int (length [transport_row, food_row2, food_row1]) \<noteq> min (- 1) (int (length june_ledger) - 0)"
  by (simp add: search_expenses_def bind_int_def in_int64_def Let_def search_where_no_filter
        june_order limit_offset_all)
     (simp add: june_ledger_def)

lemma search_where_empty_strings:
  "search_where like (Some []) ed c mn mx nc td = search_where like None ed c mn mx nc td"
  "search_where like sd (Some []) c mn mx nc td = search_where like sd None c mn mx nc td"
  "search_where like sd ed (Some []) mn mx nc td = search_where like sd ed None mn mx nc td"
  "search_where like sd ed c mn mx (Some []) td = search_where like sd ed c mn mx None td"
  by (simp_all add: search_where_def fun_eq_iff)

lemma truthy_iff: "(if py_truthy x then P (the x) else True) \<longleftrightarrow> (\<forall>s. x = Some s \<and> s \<noteq> [] \<longrightarrow> P s)"
  by (cases x) auto

lemma option_all_iff: "(case x of None \<Rightarrow> True | Some m \<Rightarrow> P m) \<longleftrightarrow> (\<forall>m. x = Some m \<longrightarrow> P m)"
  by (cases x) auto

lemma note_like_iff:
  "(case x of None \<Rightarrow> False | Some n \<Rightarrow> P n) \<longleftrightarrow> (\<exists>n. x = Some n \<and> P n)"
  by (cases x) auto

lemma search_where_iff:
  "search_where like sd ed c mn mx nc td r \<longleftrightarrow>
     (\<forall>s. sd = Some s \<and> s \<noteq> [] \<longrightarrow> s \<le> date r)
   \<and> (\<forall>s. ed = Some s \<and> s \<noteq> [] \<longrightarrow> date r \<le> s)
   \<and> (\<forall>s. c = Some s \<and> s \<noteq> [] \<longrightarrow> category r = s)
   \<and> (\<forall>m. mn = Some m \<longrightarrow> m \<le> amount r)
   \<and> (\<forall>m. mx = Some m \<longrightarrow> amount r \<le> m)
   \<and> (\<forall>s. nc = Some s \<and> s \<noteq> [] \<longrightarrow> (\<exists>n. expense_note r = Some n \<and> like n (''%'' @ s @ ''%'')))
   \<and> (\<forall>t. td = Some t \<longrightarrow> tax_deductible r = Some t)"
proof -
  have 1: "(if py_truthy sd then the sd \<le> date r else True)
      \<longleftrightarrow> (\<forall>s. sd = Some s \<and> s \<noteq> [] \<longrightarrow> s \<le> date r)"
    by (cases sd) auto
  have 2: "(if py_truthy ed then date r \<le> the ed else True)
      \<longleftrightarrow> (\<forall>s. ed = Some s \<and> s \<noteq> [] \<longrightarrow> date r \<le> s)"
    by (cases ed) auto
  have 3: "(if py_truthy c then category r = the c else True)
      \<longleftrightarrow> (\<forall>s. c = Some s \<and> s \<noteq> [] \<longrightarrow> category r = s)"
    by (cases c) auto
  have 4: "(case mn of None \<Rightarrow> True | Some m \<Rightarrow> m \<le> amount r) \<longleftrightarrow> (\<forall>m. mn = Some m \<longrightarrow> m \<le> amount r)"
    by (cases mn) auto
  have 5: "(case mx of None \<Rightarrow> True | Some m \<Rightarrow> amount r \<le> m) \<longleftrightarrow> (\<forall>m. mx = Some m \<longrightarrow> amount r \<le> m)"
    by (cases mx) auto
  have 6: "(if py_truthy nc
            then (case expense_note r of None \<Rightarrow> False
                  | Some n \<Rightarrow> like n (''%'' @ the nc @ ''%''))
            else True)
      \<longleftrightarrow> (\<forall>s. nc = Some s \<and> s \<noteq> [] \<longrightarrow> (\<exists>n. expense_note r = Some n \<and> like n (''%'' @ s @ ''%'')))"
    by (cases nc; cases "expense_note r") auto
  have 7: "(case td of None \<Rightarrow> True | Some t \<Rightarrow> tax_deductible r = Some t)
      \<longleftrightarrow> (\<forall>t. td = Some t \<longrightarrow> tax_deductible r = Some t)"
    by (cases td) auto
  show ?thesis
    unfolding search_where_def 1 2 3 4 5 6 7 ..
qed

text \<open>
  C10. An empty string for \<^verbatim>\<open>start_date\<close>, \<^verbatim>\<open>end_date\<close>, \<^verbatim>\<open>category\<close> or \<^verbatim>\<open>note_contains\<close> gives the
  same search as leaving the argument out. Every filter that is given is applied, the string
  filters when they are not empty and \<^verbatim>\<open>min_amount\<close>, \<^verbatim>\<open>max_amount\<close> and \<^verbatim>\<open>tax_deductible\<close> whenever
  they are not \<^verbatim>\<open>None\<close>, so also when they are 0: for parameters that fit 64 bits the search
  returns rows of the search without pagination, and these are exactly the rows of the table
  that are on or after a non-empty start date, on or before a non-empty end date, of a
  non-empty category, at or above \<^verbatim>\<open>min_amount\<close>, at or below \<^verbatim>\<open>max_amount\<close>, with a note that
  matches a non-empty \<^verbatim>\<open>note_contains\<close> between two \<^verbatim>\<open>%\<close>, and with the deductible flag equal to
  \<^verbatim>\<open>tax_deductible\<close>; \<^verbatim>\<open>total_count\<close> counts exactly these rows.
\<close>

theorem search_empty_strings_absent:
  "search_expenses like db (Some []) ed c mn mx nc td lmt ofs
     = search_expenses like db None ed c mn mx nc td lmt ofs
   \<and> search_expenses like db sd (Some []) c mn mx nc td lmt ofs
     = search_expenses like db sd None c mn mx nc td lmt ofs
   \<and> search_expenses like db sd ed (Some []) mn mx nc td lmt ofs
     = search_expenses like db sd ed None mn mx nc td lmt ofs
   \<and> search_expenses like db sd ed c mn mx (Some []) td lmt ofs
     = search_expenses like db sd ed c mn mx None td lmt ofs
   \<and> (in_int64 lmt \<and> in_int64 ofs \<and> (\<forall>t. td = Some t \<longrightarrow> in_int64 t) \<longrightarrow>
        (\<exists>res unpaged.
            search_expenses like db sd ed c mn mx nc td lmt ofs = Inr res
          \<and> search_expenses like db sd ed c mn mx nc td (- 1) 0 = Inr unpaged
          \<and> set (results res) \<subseteq> set (results unpaged)
          \<and> set (results unpaged) =
              {r \<in> set db.
                 (\<forall>s. sd = Some s \<and> s \<noteq> [] \<longrightarrow> s \<le> date r)
               \<and> (\<forall>s. ed = Some s \<and> s \<noteq> [] \<longrightarrow> date r \<le> s)
               \<and> (\<forall>s. c = Some s \<and> s \<noteq> [] \<longrightarrow> category r = s)
               \<and> (\<forall>m. mn = Some m \<longrightarrow> m \<le> amount r)
               \<and> (\<forall>m. mx = Some m \<longrightarrow> amount r \<le> m)
               \<and> (\<forall>s. nc = Some s \<and> s \<noteq> [] \<longrightarrow>
                     (\<exists>n. expense_note r = Some n \<and> like n (''%'' @ s @ ''%'')))
               \<and> (\<forall>t. td = Some t \<longrightarrow> tax_deductible r = Some t)}
          \<and> total_count res =
              length (filter (\<lambda>r.
                 (\<forall>s. sd = Some s \<and> s \<noteq> [] \<longrightarrow> s \<le> date r)
               \<and> (\<forall>s. ed = Some s \<and> s \<noteq> [] \<longrightarrow> date r \<le> s)
               \<and> (\<forall>s. c = Some s \<and> s \<noteq> [] \<longrightarrow> category r = s)
               \<and> (\<forall>m. mn = Some m \<longrightarrow> m \<le> amount r)
               \<and> (\<forall>m. mx = Some m \<longrightarrow> amount r \<le> m)
               \<and> (\<forall>s. nc = Some s \<and> s \<noteq> [] \<longrightarrow>
                     (\<exists>n. expense_note r = Some n \<and> like n (''%'' @ s @ ''%'')))
               \<and> (\<forall>t. td = Some t \<longrightarrow> tax_deductible r = Some t)) db)))"
proof (intro conjI impI)
  show "search_expenses like db (Some []) ed c mn mx nc td lmt ofs
     = search_expenses like db None ed c mn mx nc td lmt ofs"
    by (simp add: search_expenses_def search_where_empty_strings cong: sum.case_cong)
  show "search_expenses like db sd (Some []) c mn mx nc td lmt ofs
     = search_expenses like db sd None c mn mx nc td lmt ofs"
    by (simp add: search_expenses_def search_where_empty_strings cong: sum.case_cong)
  show "search_expenses like db sd ed (Some []) mn mx nc td lmt ofs
     = search_expenses like db sd ed None mn mx nc td lmt ofs"
    by (simp add: search_expenses_def search_where_empty_strings cong: sum.case_cong)
  show "search_expenses like db sd ed c mn mx (Some []) td lmt ofs
     = search_expenses like db sd ed c mn mx None td lmt ofs"
    by (simp add: search_expenses_def search_where_empty_strings cong: sum.case_cong)
next
  let ?wh = "search_where like sd ed c mn mx nc td"
  assume a: "in_int64 lmt \<and> in_int64 ofs \<and> (\<forall>t. td = Some t \<longrightarrow> in_int64 t)"
  from a have 1: "search_expenses like db sd ed c mn mx nc td lmt ofs =
     Inr \<lparr> results = limit_offset lmt ofs (order_newest_first (filter ?wh db)),
           total_count = length (filter ?wh db), sr_limit = lmt, sr_offset = ofs \<rparr>"
    by (intro search_ok) simp_all
  from a have 3: "search_expenses like db sd ed c mn mx nc td (- 1) 0 =
     Inr \<lparr> results = limit_offset (- 1) 0 (order_newest_first (filter ?wh db)),
           total_count = length (filter ?wh db), sr_limit = - 1, sr_offset = 0 \<rparr>"
    by (intro search_ok) (simp_all add: int64_examples)
  have sub: "set (limit_offset lmt ofs (order_newest_first (filter ?wh db)))
      \<subseteq> set (order_newest_first (filter ?wh db))"
    by (rule set_limit_offset)
  let ?P = "\<lambda>r.
                 (\<forall>s. sd = Some s \<and> s \<noteq> [] \<longrightarrow> s \<le> date r)
               \<and> (\<forall>s. ed = Some s \<and> s \<noteq> [] \<longrightarrow> date r \<le> s)
               \<and> (\<forall>s. c = Some s \<and> s \<noteq> [] \<longrightarrow> category r = s)
               \<and> (\<forall>m. mn = Some m \<longrightarrow> m \<le> amount r)
               \<and> (\<forall>m. mx = Some m \<longrightarrow> amount r \<le> m)
               \<and> (\<forall>s. nc = Some s \<and> s \<noteq> [] \<longrightarrow>
                     (\<exists>n. expense_note r = Some n \<and> like n (''%'' @ s @ ''%'')))
               \<and> (\<forall>t. td = Some t \<longrightarrow> tax_deductible r = Some t)"
  have wh: "?wh = ?P"
    by (rule ext) (rule search_where_iff)
  let ?R = "\<lparr> results = limit_offset lmt ofs (order_newest_first (filter ?wh db)),
           total_count = length (filter ?wh db), sr_limit = lmt, sr_offset = ofs \<rparr>"
  let ?U = "\<lparr> results = limit_offset (- 1) 0 (order_newest_first (filter ?wh db)),
           total_count = length (filter ?wh db), sr_limit = - 1, sr_offset = 0 \<rparr>"
  show "\<exists>res unpaged.
            search_expenses like db sd ed c mn mx nc td lmt ofs = Inr res
          \<and> search_expenses like db sd ed c mn mx nc td (- 1) 0 = Inr unpaged
          \<and> set (results res) \<subseteq> set (results unpaged)
          \<and> set (results unpaged) =
              {r \<in> set db.
                 (\<forall>s. sd = Some s \<and> s \<noteq> [] \<longrightarrow> s \<le> date r)
               \<and> (\<forall>s. ed = Some s \<and> s \<noteq> [] \<longrightarrow> date r \<le> s)
               \<and> (\<forall>s. c = Some s \<and> s \<noteq> [] \<longrightarrow> category r = s)
               \<and> (\<forall>m. mn = Some m \<longrightarrow> m \<le> amount r)
               \<and> (\<forall>m. mx = Some m \<longrightarrow> amount r \<le> m)
               \<and> (\<forall>s. nc = Some s \<and> s \<noteq> [] \<longrightarrow>
                     (\<exists>n. expense_note r = Some n \<and> like n (''%'' @ s @ ''%'')))
               \<and> (\<forall>t. td = Some t \<longrightarrow> tax_deductible r = Some t)}
          \<and> total_count res =
              length (filter (\<lambda>r.
                 (\<forall>s. sd = Some s \<and> s \<noteq> [] \<longrightarrow> s \<le> date r)
               \<and> (\<forall>s. ed = Some s \<and> s \<noteq> [] \<longrightarrow> date r \<le> s)
               \<and> (\<forall>s. c = Some s \<and> s \<noteq> [] \<longrightarrow> category r = s)
               \<and> (\<forall>m. mn = Some m \<longrightarrow> m \<le> amount r)
               \<and> (\<forall>m. mx = Some m \<longrightarrow> amount r \<le> m)
               \<and> (\<forall>s. nc = Some s \<and> s \<noteq> [] \<longrightarrow>
                     (\<exists>n. expense_note r = Some n \<and> like n (''%'' @ s @ ''%'')))
               \<and> (\<forall>t. td = Some t \<longrightarrow> tax_deductible r = Some t)) db)"
  proof (rule exI[of _ ?R], rule exI[of _ ?U], intro conjI)
    show "search_expenses like db sd ed c mn mx nc td lmt ofs = Inr ?R" by (rule 1)
    show "search_expenses like db sd ed c mn mx nc td (- 1) 0 = Inr ?U" by (rule 3)
    show "set (results ?R) \<subseteq> set (results ?U)"
      using sub by (simp add: limit_offset_all)
    have "set (results ?U) = {r \<in> set db. ?wh r}"
      by (simp add: limit_offset_all set_order_newest_first)
    also have "\<dots> = {r \<in> set db. ?P r}"
      by (simp only: wh)
    finally show "set (results ?U) = {r \<in> set db. ?P r}" .
    have "total_count ?R = length (filter ?wh db)" by simp
    also have "\<dots> = length (filter ?P db)" by (simp only: wh)
    finally show "total_count ?R = length (filter ?P db)" .
  qed
qed

lemma search_td0_example:
  "search_expenses sql_like (refund_row # june_ledger) None None None None None None (Some 0) 100 0
     = Inr \<lparr> results = [refund_row, food_row2, food_row1], total_count = 3,
             sr_limit = 100, sr_offset = 0 \<rparr>"
  by (simp add: search_expenses_def bind_int_def in_int64_def Let_def search_where_def
        limit_offset_def order_newest_first_def
        june_ledger_def food_row1_def food_row2_def transport_row_def refund_row_def)

lemma search_min0_example:
  "search_expenses sql_like (refund_row # june_ledger) None None None (Some 0) None None None (- 1) 0
     = Inr \<lparr> results = [transport_row, food_row2, food_row1], total_count = 3,
             sr_limit = - 1, sr_offset = 0 \<rparr>"
  by (simp add: search_expenses_def bind_int_def in_int64_def Let_def search_where_def
        limit_offset_def order_newest_first_def
        june_ledger_def food_row1_def food_row2_def transport_row_def refund_row_def)

lemma search_max0_example:
  "search_expenses sql_like (refund_row # june_ledger) None None (Some []) None (Some 0) None None (- 1) 0
     = Inr \<lparr> results = [refund_row], total_count = 1, sr_limit = - 1, sr_offset = 0 \<rparr>"
  by (simp add: search_expenses_def bind_int_def in_int64_def Let_def search_where_def
        limit_offset_def order_newest_first_def
        june_ledger_def food_row1_def food_row2_def transport_row_def refund_row_def)

theorem search_empty_strings_absent_witness:
  "search_expenses sql_like (refund_row # june_ledger) None None (Some []) None (Some 0) None None (- 1) 0
     = Inr \<lparr> results = [refund_row], total_count = 1, sr_limit = - 1, sr_offset = 0 \<rparr>
   \<and> search_expenses sql_like (refund_row # june_ledger) None None None None (Some 0) None None (- 1) 0
     = Inr \<lparr> results = [refund_row], total_count = 1, sr_limit = - 1, sr_offset = 0 \<rparr>
   \<and> amount refund_row \<le> 0"
  using search_empty_strings_absent [where like = sql_like and db = "refund_row # june_ledger"
      and sd = None and ed = None and c = None and mn = None and mx = "Some 0" and nc = None
      and td = None and lmt = "- 1" and ofs = 0]
  by (simp add: search_max0_example in_int64_def) (simp add: refund_row_def)

subsection \<open>Groups\<close>

lemma group_keys_strict: "sorted_wrt (<) (group_keys k rows)"
  by (simp add: group_keys_def strict_sorted_iff)

lemma set_group_keys: "set (group_keys k rows) = k ` set rows"
  by (simp add: group_keys_def)

lemma distinct_group_keys: "distinct (group_keys k rows)"
  by (simp add: group_keys_def)

lemma group_rows_ne: "v \<in> k ` set rows \<Longrightarrow> group_rows k v rows \<noteq> []"
  by (auto simp: group_rows_def filter_empty_conv)


lemma range_rows_eq:
  "range_rows db s e cat
     = filter (\<lambda>r. s \<le> date r \<and> date r \<le> e \<and> (\<forall>c. cat = Some c \<and> c \<noteq> [] \<longrightarrow> category r = c)) db"
proof -
  have "category_clause cat r \<longleftrightarrow> (\<forall>c. cat = Some c \<and> c \<noteq> [] \<longrightarrow> category r = c)" for r
    by (cases cat) (auto simp: category_clause_def)
  then show ?thesis by (simp add: range_rows_def between_def)
qed

lemma range_rows_None:
  "range_rows db s e None = filter (\<lambda>r. s \<le> date r \<and> date r \<le> e) db"
  by (simp add: range_rows_eq)

lemma example_dates:
  "date food_row1 = ''2025-06-01''" "date food_row2 = ''2025-06-15''"
  "date transport_row = ''2025-06-20''" "date refund_row = ''2025-07-02''"
  by (simp_all add: food_row1_def food_row2_def transport_row_def refund_row_def)


lemma example_amounts:
  "amount food_row1 = 50" "amount food_row2 = 30" "amount transport_row = 20"
  "amount refund_row = - 5"
  by (simp_all add: food_row1_def food_row2_def transport_row_def refund_row_def)

lemmas double_eval =
  to_double_def binade_def log2_floor.simps round_half_even_def round2_def Let_def

lemma double_sum_examples:
  "double_sum [50, 30] = 80" "double_sum [20] = 20" "double_sum [50, 30, 20] = 100"
  "double_sum [- 5] = - 5" "double_sum [80] = 80" "double_sum [80, 20] = 100"
  by (simp_all add: double_sum_def double_eval)


subsection \<open>Trends\<close>

text \<open>
  C8. For every range and every \<^verbatim>\<open>group_by\<close> (\<^verbatim>\<open>day\<close>, \<^verbatim>\<open>week\<close>, \<^verbatim>\<open>month\<close>, and any other text,
  which groups by month), every entry of \<^verbatim>\<open>trends\<close> counts at least one row, namely the rows of
  the range whose period key is the entry's, and the period keys of the entries are strictly
  ascending (a NULL key, which \<^verbatim>\<open>strftime\<close> gives for a text that is no date, comes first).
\<close>

theorem analyze_trends_periods:
  "(\<forall>t \<in> set (trends (analyze_trends fl strftime db s e g)).
      1 \<le> expense_count t
      \<and> expense_count t
          = length (filter (\<lambda>r. period_key strftime g r = period t) (range_rows db s e None)))
   \<and> sorted_wrt (<) (map period (trends (analyze_trends fl strftime db s e g)))"
proof (intro conjI ballI)
  let ?rows = "range_rows db s e None"
  let ?key = "period_key strftime g"
  have keys: "map period (trends (analyze_trends fl strftime db s e g)) = group_keys ?key ?rows"
    by (simp add: analyze_trends_def Let_def comp_def)
  show "sorted_wrt (<) (map period (trends (analyze_trends fl strftime db s e g)))"
    unfolding keys by (rule group_keys_strict)
  fix t assume "t \<in> set (trends (analyze_trends fl strftime db s e g))"
  then obtain k where k: "k \<in> set (group_keys ?key ?rows)"
    and t: "period t = k" "expense_count t = length (group_rows ?key k ?rows)"
    by (auto simp: analyze_trends_def Let_def)
  from k have "k \<in> ?key ` set ?rows" by (simp add: set_group_keys)
  then have "group_rows ?key k ?rows \<noteq> []" by (rule group_rows_ne)
  then have "1 \<le> length (group_rows ?key k ?rows)"
    by (cases "group_rows ?key k ?rows") simp_all
  with t(2) show "1 \<le> expense_count t" by simp
  from t show "expense_count t = length (filter (\<lambda>r. ?key r = period t) ?rows)"
    by (simp add: group_rows_def)
qed

lemma trends_example:
  "map (\<lambda>t. (period t, expense_count t, t_total t))
     (trends (analyze_trends double_ops strftime_month (refund_row # june_ledger)
        ''2025-06-01'' ''2025-12-31'' ''month''))
   = [(Some ''2025-06'', 3, 100), (Some ''2025-07'', 1, - 5)]"
  by (simp add: analyze_trends_def Let_def range_rows_None june_ledger_def example_dates
        period_key_def strftime_month_def group_keys_def group_rows_def example_amounts
        sql_sum_def double_ops_def double_sum_examples py_round2_def double_eval)

theorem analyze_trends_periods_witness:
  "map (\<lambda>t. (period t, expense_count t))
     (trends (analyze_trends double_ops strftime_month (refund_row # june_ledger)
        ''2025-06-01'' ''2025-12-31'' ''month''))
   = [(Some ''2025-06'', 3), (Some ''2025-07'', 1)]
   \<and> Some ''2025-06'' < Some ''2025-07''"
  using analyze_trends_periods [of double_ops strftime_month "refund_row # june_ledger"
      "''2025-06-01''" "''2025-12-31''" "''month''"] trends_example
  by (auto simp: list_eq_iff_nth_eq nth_Cons' split: if_splits)

subsection \<open>Summarize\<close>




subsection \<open>Dates and compare\_months\<close>

lemmas ascii_int_eval =
  ascii_int_def strip_def is_space_def is_digit_def digit_val_def Let_def



lemma mse_feb: "month_start_end ascii_int ''2024-02'' = Inr (''2024-02-01'', ''2024-02-29'')"
  by (simp add: month_start_end_def ascii_int_eval
        monthrange_days_def isleap_def py_format_0d_def digits.simps digit_char_def)


lemma ascii_int_error: "ascii_int s = Inl e \<Longrightarrow> e = ValueError"
  by (auto simp: ascii_int_def Let_def split: list.splits if_splits option.splits)















subsection \<open>Category shares\<close>







lemma list_all2_setD:
  "list_all2 P xs ys \<Longrightarrow> y \<in> set ys \<Longrightarrow> \<exists>x \<in> set xs. P x y"
  by (induction xs ys rule: list_all2_induct) auto














end
